theory Spec2Isabelle
  imports Main
begin

section \<open>The TLS socket policy of the ASIO transport (security/tls.hpp)\<close>

text \<open>
  The header defines two classes, \<open>tls_socket::connection\<close> and
  \<open>tls_socket::endpoint\<close>. Their member functions are embedded below, one
  definition per member function, under the names of the source. The
  \<open>std::cout\<close> lines of the source only print a trace to the console; they change
  nothing the functions return or store, and are left out.
\<close>

subsection \<open>Values handed in by the collaborators\<close>

text \<open>
  \<open>connection_hdl\<close> is an opaque token (a weak pointer in the source); the empty
  handle of a freshly constructed connection is \<open>None\<close>. \<open>io_service_ptr\<close> is the
  address of the endpoint's io_service. A TLS context is the application's object,
  known here by its identity only.
\<close>

type_synonym connection_hdl = "nat option"
type_synonym io_service_ptr = nat
type_synonym ssl_context = nat

text \<open>
  \<open>boost::system::error_code\<close>: the integer \<open>value()\<close>; \<open>if (error)\<close> tests it
  against zero.
\<close>

type_synonym boost_error = int

text \<open>
  Modelled from the spec: \<open>boost::asio::error::operation_aborted\<close> is a constant of
  Boost.Asio, the reactor collaborator, whose headers are not among the sources. It is
  the non-zero code (\<open>ECANCELED\<close>, 125 on Linux) with which a cancelled timer
  wait completes: the "operation aborted" notification of the spec.
\<close>

definition operation_aborted :: boost_error where
  "operation_aborted = 125"

text \<open>
  Modelled from the spec: \<open>socket::error\<close> and \<open>socket::make_error\<close> are declared in
  security/base.hpp, which is not among the sources. The enumerators are the four that
  tls.hpp names; they are the spec's error taxonomy MissingTLSInitHandler,
  InvalidTLSContext, HandshakeTimeout and PassThroughError. A \<open>lib::error_code\<close> is
  such an error or, default-constructed, none.
\<close>

datatype socket_error =
    invalid_tls_context
  | tls_handshake_timeout
  | pass_through
  | missing_tls_init_handler

type_synonym lib_error_code = "socket_error option"

definition make_error :: "socket_error \<Rightarrow> lib_error_code" where
  "make_error e = Some e"

text \<open>
  Modelled from the spec: \<open>init_handler\<close>, the type of the completion callback, is
  declared in security/base.hpp, which is not among the sources. The callback is the
  caller's code; it is known here by its identity, and every invocation of it is
  recorded with the error code it receives.
\<close>

type_synonym init_handler = nat

subsection \<open>The objects a connection owns\<close>

text \<open>
  The lowest layer of the stream is the TCP socket; the socket-init handler receives it
  by reference and may set options on it.
\<close>

record tcp_socket =
  sock_service :: io_service_ptr
  sock_options :: "nat list"

text \<open>\<open>socket_type\<close> is the SSL stream over a TCP socket, built from the io_service and the context.\<close>

record socket_type =
  lowest_layer :: tcp_socket
  stream_context :: ssl_context

definition new_socket_type :: "io_service_ptr \<Rightarrow> ssl_context \<Rightarrow> socket_type" where
  "new_socket_type service ctx =
     \<lparr>lowest_layer = \<lparr>sock_service = service, sock_options = []\<rparr>, stream_context = ctx\<rparr>"

text \<open>The deadline timer, built from the io_service and an expiry of zero seconds.\<close>

record deadline_timer =
  timer_service :: io_service_ptr
  timer_seconds :: nat

datatype handshake_type = client | server

text \<open>A \<open>lib::function\<close> may be empty: the handlers are optional functions.\<close>

type_synonym socket_init_handler = "(connection_hdl \<Rightarrow> tcp_socket \<Rightarrow> tcp_socket) option"
type_synonym tls_init_handler = "(connection_hdl \<Rightarrow> ssl_context option) option"

text \<open>The data members of \<open>connection\<close>; a shared pointer is \<open>None\<close> when null.\<close>

record connection =
  m_io_service :: io_service_ptr
  m_context :: "ssl_context option"
  m_socket :: "socket_type option"
  m_timer :: "deadline_timer option"
  m_is_server :: bool
  m_hdl :: connection_hdl
  m_socket_init_handler :: socket_init_handler
  m_tls_init_handler :: tls_init_handler

text \<open>
  The constructor initialises no member explicitly: the shared pointers, the handle and
  the handlers start out empty, while the raw pointer \<open>m_io_service\<close> and the flag
  \<open>m_is_server\<close> hold indeterminate values, which are the two arguments here.
\<close>

definition connection_ctor :: "io_service_ptr \<Rightarrow> bool \<Rightarrow> connection" where
  "connection_ctor indeterminate_service indeterminate_role =
     \<lparr>m_io_service = indeterminate_service, m_context = None, m_socket = None,
      m_timer = None, m_is_server = indeterminate_role, m_hdl = None,
      m_socket_init_handler = None, m_tls_init_handler = None\<rparr>"

subsection \<open>What a member function does to its collaborators\<close>

text \<open>
  Calls on the timer, on the stream, of the application's socket-init handler and of the
  completion callback are effects on objects outside the connection. Each function
  returns the list of the calls it makes, in program order. Dereferencing a null shared
  pointer is undefined behaviour in the source; it is the fault \<open>null_dereference\<close>.
\<close>

datatype fault = null_dereference

datatype effect =
    SocketInitCall connection_hdl tcp_socket
  | TimerExpiresFromNow nat
  | TimerAsyncWait init_handler
  | TimerCancel
  | AsyncHandshake handshake_type init_handler
  | StreamShutdown
  | Callback init_handler lib_error_code

subsection \<open>connection\<close>

definition is_secure :: "connection \<Rightarrow> bool" where
  "is_secure c = True"

definition get_raw_socket :: "connection \<Rightarrow> fault + tcp_socket" where
  "get_raw_socket c =
     (case m_socket c of
        None \<Rightarrow> Inl null_dereference
      | Some s \<Rightarrow> Inr (lowest_layer s))"

definition get_socket :: "connection \<Rightarrow> fault + socket_type" where
  "get_socket c =
     (case m_socket c of
        None \<Rightarrow> Inl null_dereference
      | Some s \<Rightarrow> Inr s)"

definition set_socket_init_handler :: "socket_init_handler \<Rightarrow> connection \<Rightarrow> connection" where
  "set_socket_init_handler h c = c\<lparr>m_socket_init_handler := h\<rparr>"

definition set_tls_init_handler :: "tls_init_handler \<Rightarrow> connection \<Rightarrow> connection" where
  "set_tls_init_handler h c = c\<lparr>m_tls_init_handler := h\<rparr>"

definition set_handle :: "connection_hdl \<Rightarrow> connection \<Rightarrow> connection" where
  "set_handle hdl c = c\<lparr>m_hdl := hdl\<rparr>"

text \<open>
  \<open>init_asio\<close> returns its error code and the connection as it leaves it. The context
  member is assigned before it is tested, so a null context is stored.
\<close>

definition init_asio :: "io_service_ptr \<Rightarrow> bool \<Rightarrow> connection \<Rightarrow> lib_error_code \<times> connection" where
  "init_asio service is_server c =
     (case m_tls_init_handler c of
        None \<Rightarrow> (make_error missing_tls_init_handler, c)
      | Some h \<Rightarrow>
          (let c1 = c\<lparr>m_context := h (m_hdl c)\<rparr> in
           case m_context c1 of
             None \<Rightarrow> (make_error invalid_tls_context, c1)
           | Some ctx \<Rightarrow>
               (None,
                c1\<lparr>m_socket := Some (new_socket_type service ctx),
                   m_timer := Some \<lparr>timer_service = service, timer_seconds = 0\<rparr>,
                   m_io_service := service,
                   m_is_server := is_server\<rparr>)))"

definition get_handshake_type :: "connection \<Rightarrow> handshake_type" where
  "get_handshake_type c = (if m_is_server c then server else client)"

text \<open>
  \<open>init\<close>: the socket-init handler, when set, runs on the raw socket, and what it does
  to the socket stays in the connection's stream (it is passed by reference). Then the
  timer is set to 5000 ms and waited on with \<open>handle_timeout\<close> bound to the callback,
  and the handshake is started with \<open>handle_init\<close> bound to the callback.
\<close>

definition init :: "init_handler \<Rightarrow> connection \<Rightarrow> fault + connection \<times> effect list" where
  "init callback c =
     (case
        (case m_socket_init_handler c of
           None \<Rightarrow> Inr (c, [])
         | Some h \<Rightarrow>
             (case get_raw_socket c of
                Inl f \<Rightarrow> Inl f
              | Inr raw \<Rightarrow>
                  Inr (c\<lparr>m_socket :=
                           map_option (\<lambda>s. s\<lparr>lowest_layer := h (m_hdl c) raw\<rparr>) (m_socket c)\<rparr>,
                       [SocketInitCall (m_hdl c) raw])))
      of
        Inl f \<Rightarrow> Inl f
      | Inr (c1, fx) \<Rightarrow>
          (case m_timer c1 of
             None \<Rightarrow> Inl null_dereference
           | Some t \<Rightarrow>
               (case m_socket c1 of
                  None \<Rightarrow> Inl null_dereference
                | Some s \<Rightarrow>
                    Inr (c1, fx @ [TimerExpiresFromNow 5000,
                                   TimerAsyncWait callback,
                                   AsyncHandshake (get_handshake_type c1) callback]))))"

text \<open>\<open>handle_timeout\<close> reads no member of the connection.\<close>

definition handle_timeout :: "init_handler \<Rightarrow> boost_error \<Rightarrow> effect list" where
  "handle_timeout callback error =
     (if error \<noteq> 0 then
        (if error = operation_aborted then []
         else [Callback callback (make_error pass_through)])
      else [Callback callback (make_error tls_handshake_timeout)])"

definition handle_init :: "init_handler \<Rightarrow> boost_error \<Rightarrow> connection \<Rightarrow> fault + effect list" where
  "handle_init callback error c =
     (case m_timer c of
        None \<Rightarrow> Inl null_dereference
      | Some t \<Rightarrow>
          Inr (TimerCancel #
               (if error \<noteq> 0 then [Callback callback (make_error pass_through)]
                else [Callback callback None])))"

text \<open>
  \<open>shutdown\<close>: the stream's \<open>shutdown(ec)\<close> writes the outcome of the close into the
  local \<open>ec\<close>, which is the first argument here; the function returns \<open>void\<close>.
\<close>

definition shutdown :: "boost_error \<Rightarrow> connection \<Rightarrow> fault + effect list" where
  "shutdown close_outcome c =
     (case m_socket c of
        None \<Rightarrow> Inl null_dereference
      | Some s \<Rightarrow> (let ec = close_outcome in Inr [StreamShutdown]))"

subsection \<open>endpoint\<close>

record endpoint =
  ep_socket_init_handler :: socket_init_handler
  ep_tls_init_handler :: tls_init_handler

definition endpoint_ctor :: endpoint where
  "endpoint_ctor = \<lparr>ep_socket_init_handler = None, ep_tls_init_handler = None\<rparr>"

definition endpoint_is_secure :: "endpoint \<Rightarrow> bool" where
  "endpoint_is_secure ep = True"

definition endpoint_set_socket_init_handler :: "socket_init_handler \<Rightarrow> endpoint \<Rightarrow> endpoint" where
  "endpoint_set_socket_init_handler h ep = ep\<lparr>ep_socket_init_handler := h\<rparr>"

definition endpoint_set_tls_init_handler :: "tls_init_handler \<Rightarrow> endpoint \<Rightarrow> endpoint" where
  "endpoint_set_tls_init_handler h ep = ep\<lparr>ep_tls_init_handler := h\<rparr>"

text \<open>\<open>endpoint::init(scon)\<close> returns \<open>void\<close>; the result is the connection it wrote to.\<close>

definition endpoint_init :: "endpoint \<Rightarrow> connection \<Rightarrow> connection" where
  "endpoint_init ep scon =
     set_tls_init_handler (ep_tls_init_handler ep)
       (set_socket_init_handler (ep_socket_init_handler ep) scon)"

subsection \<open>Endpoint and connection as objects in one store\<close>

text \<open>
  \<open>endpoint::init\<close> writes to the connection through the pointer \<open>scon\<close>, and the
  setters write to the endpoint through \<open>this\<close>. With both objects in one store,
  addressed by number, each call is a change of the store. An address that holds no
  object of the expected class is a null pointer.
\<close>

datatype object = EndpointObject endpoint | ConnectionObject connection

type_synonym address = nat
type_synonym store = "address \<Rightarrow> object option"

definition endpoint_init_in :: "address \<Rightarrow> address \<Rightarrow> store \<Rightarrow> fault + store" where
  "endpoint_init_in this scon st =
     (case st this of
        Some (EndpointObject ep) \<Rightarrow>
          (case st scon of
             Some (ConnectionObject c) \<Rightarrow> Inr (st(scon \<mapsto> ConnectionObject (endpoint_init ep c)))
           | _ \<Rightarrow> Inl null_dereference)
      | _ \<Rightarrow> Inl null_dereference)"

definition endpoint_set_socket_init_handler_in ::
    "address \<Rightarrow> socket_init_handler \<Rightarrow> store \<Rightarrow> fault + store" where
  "endpoint_set_socket_init_handler_in this h st =
     (case st this of
        Some (EndpointObject ep) \<Rightarrow>
          Inr (st(this \<mapsto> EndpointObject (endpoint_set_socket_init_handler h ep)))
      | _ \<Rightarrow> Inl null_dereference)"

definition endpoint_set_tls_init_handler_in ::
    "address \<Rightarrow> tls_init_handler \<Rightarrow> store \<Rightarrow> fault + store" where
  "endpoint_set_tls_init_handler_in this h st =
     (case st this of
        Some (EndpointObject ep) \<Rightarrow>
          Inr (st(this \<mapsto> EndpointObject (endpoint_set_tls_init_handler h ep)))
      | _ \<Rightarrow> Inl null_dereference)"

section \<open>The io_service, as one connection sees it\<close>

text \<open>
  Modelled from the spec: the reactor (Boost.Asio's io_service, deadline timer and SSL
  stream) is an external collaborator whose code is not among the sources. The spec
  gives its interface: a cancellable one-shot timer, an asynchronous handshake, and
  completions delivered one at a time on a single execution context. The io_service
  holds the handlers of the outstanding timer waits and handshakes, and the queue of
  completions whose handler has not run yet. Cancelling the timer, or setting a new
  expiry, completes every outstanding wait with \<open>operation_aborted\<close>; a wait that has
  already completed stays in the queue with the code it completed with. \<open>calls\<close> is the
  record of the invocations of completion callbacks.
\<close>

datatype completion =
    WaitDone init_handler boost_error
  | HandshakeDone init_handler boost_error

record io_service =
  waits :: "init_handler list"
  handshakes :: "init_handler list"
  ready :: "completion list"
  calls :: "(init_handler \<times> lib_error_code) list"

definition idle_service :: io_service where
  "idle_service = \<lparr>waits = [], handshakes = [], ready = [], calls = []\<rparr>"

definition complete_waits :: "boost_error \<Rightarrow> io_service \<Rightarrow> io_service" where
  "complete_waits e st =
     st\<lparr>ready := ready st @ map (\<lambda>cb. WaitDone cb e) (waits st), waits := []\<rparr>"

fun perform :: "effect \<Rightarrow> io_service \<Rightarrow> io_service" where
  "perform (SocketInitCall hdl raw) st = st"
| "perform (TimerExpiresFromNow ms) st = complete_waits operation_aborted st"
| "perform (TimerAsyncWait cb) st = st\<lparr>waits := waits st @ [cb]\<rparr>"
| "perform TimerCancel st = complete_waits operation_aborted st"
| "perform (AsyncHandshake role cb) st = st\<lparr>handshakes := handshakes st @ [cb]\<rparr>"
| "perform StreamShutdown st = st"
| "perform (Callback cb ec) st = st\<lparr>calls := calls st @ [(cb, ec)]\<rparr>"

fun performs :: "effect list \<Rightarrow> io_service \<Rightarrow> io_service" where
  "performs [] st = st"
| "performs (f # fs) st = performs fs (perform f st)"

text \<open>
  What the reactor does next: the timer's waits complete with a code (zero when the
  deadline has elapsed), the oldest outstanding handshake resolves with a code, or the
  handler of the oldest queued completion runs: \<open>handle_timeout\<close> for a wait,
  \<open>handle_init\<close> for a handshake, each with the callback bound in \<open>init\<close>.
\<close>

datatype reactor_event =
    TimerCompletes boost_error
  | HandshakeCompletes boost_error
  | Dispatch

fun step :: "connection \<Rightarrow> reactor_event \<Rightarrow> io_service \<Rightarrow> fault + io_service" where
  "step c (TimerCompletes e) st = Inr (complete_waits e st)"
| "step c (HandshakeCompletes e) st =
     (case handshakes st of
        [] \<Rightarrow> Inr st
      | cb # rest \<Rightarrow> Inr (st\<lparr>ready := ready st @ [HandshakeDone cb e], handshakes := rest\<rparr>))"
| "step c Dispatch st =
     (case ready st of
        [] \<Rightarrow> Inr st
      | WaitDone cb e # queue \<Rightarrow> Inr (performs (handle_timeout cb e) (st\<lparr>ready := queue\<rparr>))
      | HandshakeDone cb e # queue \<Rightarrow>
          (case handle_init cb e c of
             Inl f \<Rightarrow> Inl f
           | Inr fx \<Rightarrow> Inr (performs fx (st\<lparr>ready := queue\<rparr>))))"

fun run :: "connection \<Rightarrow> reactor_event list \<Rightarrow> io_service \<Rightarrow> fault + io_service" where
  "run c [] st = Inr st"
| "run c (ev # evs) st =
     (case step c ev st of
        Inl f \<Rightarrow> Inl f
      | Inr st' \<Rightarrow> run c evs st')"

text \<open>
  One handshake attempt: \<open>init\<close> on an idle io_service, then the reactor's events.
\<close>

definition handshake_attempt ::
    "init_handler \<Rightarrow> reactor_event list \<Rightarrow> connection \<Rightarrow> fault + io_service" where
  "handshake_attempt callback evs c =
     (case init callback c of
        Inl f \<Rightarrow> Inl f
      | Inr (c1, fx) \<Rightarrow> run c1 evs (performs fx idle_service))"

text \<open>
  A connection bound as a client with a tls-init handler that supplies context 7, used
  where a concrete connection is needed.
\<close>

definition bound_client :: connection where
  "bound_client =
     snd (init_asio 1 False
            (set_tls_init_handler (Some (\<lambda>hdl. Some 7)) (connection_ctor 0 True)))"

section \<open>Binding\<close>

text \<open>
  C2. If no tls-init handler is configured, \<open>init_asio\<close> returns the
  missing-tls-init-handler error and leaves the connection as it was: neither the
  socket nor the timer is allocated, and the io_service and role members are untouched.
\<close>

theorem init_asio_missing_handler:
  "m_tls_init_handler c = None \<Longrightarrow>
     init_asio service is_server c = (make_error missing_tls_init_handler, c)"
  by (simp add: init_asio_def)

theorem init_asio_missing_handler_witness:
  "m_tls_init_handler (connection_ctor 0 False) = None \<and>
   init_asio 1 True (connection_ctor 0 False) =
     (Some missing_tls_init_handler, connection_ctor 0 False) \<and>
   m_socket (snd (init_asio 1 True (connection_ctor 0 False))) = None \<and>
   m_timer (snd (init_asio 1 True (connection_ctor 0 False))) = None"
  using init_asio_missing_handler [of "connection_ctor 0 False" 1 True]
  by (simp add: connection_ctor_def make_error_def)

text \<open>
  C3. If the tls-init handler is set but returns a null context, \<open>init_asio\<close> returns
  the invalid-tls-context error; the only member written is the context (now null),
  so the socket and the timer are as they were.
\<close>

theorem init_asio_null_context:
  "m_tls_init_handler c = Some h \<Longrightarrow> h (m_hdl c) = None \<Longrightarrow>
     init_asio service is_server c = (make_error invalid_tls_context, c\<lparr>m_context := None\<rparr>) \<and>
     m_socket (snd (init_asio service is_server c)) = m_socket c \<and>
     m_timer (snd (init_asio service is_server c)) = m_timer c"
  by (simp add: init_asio_def)

theorem init_asio_null_context_witness:
  "init_asio 1 True (set_tls_init_handler (Some (\<lambda>hdl. None)) (connection_ctor 0 False)) =
     (Some invalid_tls_context,
      set_tls_init_handler (Some (\<lambda>hdl. None)) (connection_ctor 0 False)) \<and>
   m_socket (snd (init_asio 1 True
      (set_tls_init_handler (Some (\<lambda>hdl. None)) (connection_ctor 0 False)))) = None \<and>
   m_timer (snd (init_asio 1 True
      (set_tls_init_handler (Some (\<lambda>hdl. None)) (connection_ctor 0 False)))) = None"
  using init_asio_null_context
    [of "set_tls_init_handler (Some (\<lambda>hdl. None)) (connection_ctor 0 False)"
        "\<lambda>hdl. None" 1 True]
  by (simp add: connection_ctor_def set_tls_init_handler_def make_error_def)

text \<open>What a successful \<open>init_asio\<close> leaves behind.\<close>

lemma init_asio_success:
  assumes "init_asio service is_server c = (None, c')"
  shows "\<exists>s t. m_socket c' = Some s \<and> m_timer c' = Some t"
    and "m_is_server c' = is_server"
    and "m_io_service c' = service"
  using assms
  by (auto simp: init_asio_def make_error_def Let_def split: option.splits)

lemma bound_client_simps:
  "m_socket bound_client = Some (new_socket_type 1 7)"
  "m_timer bound_client = Some \<lparr>timer_service = 1, timer_seconds = 0\<rparr>"
  "m_is_server bound_client = False"
  "m_socket_init_handler bound_client = None"
  "m_hdl bound_client = None"
  by (simp_all add: bound_client_def init_asio_def set_tls_init_handler_def
      connection_ctor_def)

section \<open>Accessors\<close>

text \<open>
  C9. On a connection whose socket pointer is null, as it is from construction until
  \<open>init_asio\<close> succeeds, \<open>get_raw_socket\<close> and \<open>get_socket\<close> dereference the null
  pointer: there is no guard and no error return. A failed \<open>init_asio\<close> leaves the
  pointer null.
\<close>

theorem accessors_unchecked:
  "m_socket c = None \<Longrightarrow>
     get_raw_socket c = Inl null_dereference \<and>
     get_socket c = Inl null_dereference \<and>
     (fst (init_asio service is_server c) \<noteq> None \<longrightarrow>
        get_raw_socket (snd (init_asio service is_server c)) = Inl null_dereference \<and>
        get_socket (snd (init_asio service is_server c)) = Inl null_dereference)"
  by (auto simp: get_raw_socket_def get_socket_def init_asio_def make_error_def Let_def
      split: option.splits)

theorem accessors_unchecked_witness:
  "m_socket (connection_ctor 0 False) = None \<and>
   get_raw_socket (connection_ctor 0 False) = Inl null_dereference \<and>
   get_socket (connection_ctor 0 False) = Inl null_dereference \<and>
   fst (init_asio 1 True (connection_ctor 0 False)) \<noteq> None \<and>
   get_raw_socket (snd (init_asio 1 True (connection_ctor 0 False))) = Inl null_dereference \<and>
   get_socket (snd (init_asio 1 True (connection_ctor 0 False))) = Inl null_dereference"
  using accessors_unchecked [of "connection_ctor 0 False" 1 True]
  by (simp add: connection_ctor_def init_asio_def make_error_def)

section \<open>Endpoint\<close>

text \<open>
  C5. \<open>endpoint::init\<close> on an endpoint and a connection always succeeds and stores the
  endpoint's two handlers, as they are at that moment, in the connection. Setting new
  handlers on the endpoint afterwards leaves the connection object as \<open>init\<close> left it.
\<close>

theorem endpoint_init_snapshot:
  "st this = Some (EndpointObject ep) \<Longrightarrow> st scon = Some (ConnectionObject c) \<Longrightarrow>
     \<exists>st1. endpoint_init_in this scon st = Inr st1 \<and>
       st1 scon = Some (ConnectionObject
         (c\<lparr>m_socket_init_handler := ep_socket_init_handler ep,
            m_tls_init_handler := ep_tls_init_handler ep\<rparr>)) \<and>
       (\<exists>st2 st3.
          endpoint_set_socket_init_handler_in this h1 st1 = Inr st2 \<and>
          endpoint_set_tls_init_handler_in this h2 st2 = Inr st3 \<and>
          st2 scon = st1 scon \<and> st3 scon = st1 scon)"
  by (auto simp: endpoint_init_in_def endpoint_set_socket_init_handler_in_def
      endpoint_set_tls_init_handler_in_def endpoint_init_def set_socket_init_handler_def
      set_tls_init_handler_def)


theorem endpoint_init_snapshot_witness:
  "\<exists>st1. endpoint_init_in 1 2
       ((\<lambda>a. None)(1 \<mapsto> EndpointObject (endpoint_set_tls_init_handler (Some (\<lambda>hdl. Some 7)) endpoint_ctor),
                   2 \<mapsto> ConnectionObject (connection_ctor 0 False))) = Inr st1 \<and>
     st1 2 = Some (ConnectionObject
       ((connection_ctor 0 False)\<lparr>m_socket_init_handler := None,
                                  m_tls_init_handler := Some (\<lambda>hdl. Some 7)\<rparr>)) \<and>
     (\<exists>st2 st3.
        endpoint_set_socket_init_handler_in 1 (Some (\<lambda>hdl raw. raw)) st1 = Inr st2 \<and>
        endpoint_set_tls_init_handler_in 1 None st2 = Inr st3 \<and>
        st2 2 = st1 2 \<and> st3 2 = st1 2)"
  using endpoint_init_snapshot
    [of "(\<lambda>a. None)(1 \<mapsto> EndpointObject (endpoint_set_tls_init_handler (Some (\<lambda>hdl. Some 7)) endpoint_ctor),
                     2 \<mapsto> ConnectionObject (connection_ctor 0 False))"
        1 "endpoint_set_tls_init_handler (Some (\<lambda>hdl. Some 7)) endpoint_ctor"
        2 "connection_ctor 0 False" "Some (\<lambda>hdl raw. raw)" None]
  by (simp add: endpoint_set_tls_init_handler_def endpoint_ctor_def)

section \<open>Starting the handshake\<close>

text \<open>\<open>init\<close> on a connection that has its socket and its timer.\<close>

lemma init_bound:
  assumes "m_socket c = Some s" and "m_timer c = Some t"
  shows "init callback c =
     Inr (case m_socket_init_handler c of
            None \<Rightarrow>
              (c, [TimerExpiresFromNow 5000, TimerAsyncWait callback,
                   AsyncHandshake (get_handshake_type c) callback])
          | Some h \<Rightarrow>
              (c\<lparr>m_socket := Some (s\<lparr>lowest_layer := h (m_hdl c) (lowest_layer s)\<rparr>)\<rparr>,
               [SocketInitCall (m_hdl c) (lowest_layer s),
                TimerExpiresFromNow 5000, TimerAsyncWait callback,
                AsyncHandshake (get_handshake_type c) callback]))"
  using assms
  by (simp add: init_def get_raw_socket_def get_handshake_type_def split: option.splits)

text \<open>
  C6. On a bound connection, \<open>init\<close> with a socket-init handler set calls the handler
  once, with the connection's handle and the raw socket of the connection's own stream
  (what the handler does to it is in the stream afterwards), and this call comes first:
  before the timer is set and waited on, and before the handshake is started. With no
  handler set the call is absent and the other three calls are the same.
\<close>

theorem init_socket_init_handler_first:
  "m_socket c = Some s \<Longrightarrow> m_timer c = Some t \<Longrightarrow>
     (m_socket_init_handler c = None \<longrightarrow>
        init callback c =
          Inr (c, [TimerExpiresFromNow 5000, TimerAsyncWait callback,
                   AsyncHandshake (get_handshake_type c) callback])) \<and>
     (\<forall>h. m_socket_init_handler c = Some h \<longrightarrow>
        init callback c =
          Inr (c\<lparr>m_socket := Some (s\<lparr>lowest_layer := h (m_hdl c) (lowest_layer s)\<rparr>)\<rparr>,
               [SocketInitCall (m_hdl c) (lowest_layer s),
                TimerExpiresFromNow 5000, TimerAsyncWait callback,
                AsyncHandshake (get_handshake_type c) callback]))"
  by (simp add: init_bound)

theorem init_socket_init_handler_first_witness:
  "init 3 bound_client =
     Inr (bound_client,
          [TimerExpiresFromNow 5000, TimerAsyncWait 3, AsyncHandshake client 3]) \<and>
   init 3 (set_socket_init_handler
             (Some (\<lambda>hdl raw. raw\<lparr>sock_options := 9 # sock_options raw\<rparr>))
             (set_handle (Some 4) bound_client)) =
     Inr ((set_socket_init_handler
             (Some (\<lambda>hdl raw. raw\<lparr>sock_options := 9 # sock_options raw\<rparr>))
             (set_handle (Some 4) bound_client))
            \<lparr>m_socket := Some \<lparr>lowest_layer = \<lparr>sock_service = 1, sock_options = [9]\<rparr>,
                               stream_context = 7\<rparr>\<rparr>,
          [SocketInitCall (Some 4) \<lparr>sock_service = 1, sock_options = []\<rparr>,
           TimerExpiresFromNow 5000, TimerAsyncWait 3, AsyncHandshake client 3])"
  using init_socket_init_handler_first
    [of bound_client "new_socket_type 1 7" "\<lparr>timer_service = 1, timer_seconds = 0\<rparr>" 3]
    init_socket_init_handler_first
    [of "set_socket_init_handler
           (Some (\<lambda>hdl raw. raw\<lparr>sock_options := 9 # sock_options raw\<rparr>))
           (set_handle (Some 4) bound_client)"
        "new_socket_type 1 7" "\<lparr>timer_service = 1, timer_seconds = 0\<rparr>" 3]
  by (simp add: bound_client_simps set_socket_init_handler_def set_handle_def
      get_handshake_type_def new_socket_type_def)

text \<open>
  C7. After \<open>init_asio\<close> has succeeded with the flag \<open>is_server\<close>, the handshake type is
  server when the flag was true and client otherwise, and \<open>init\<close> starts the
  asynchronous handshake, its last call, with that type.
\<close>

theorem handshake_role_from_init_asio:
  "init_asio service is_server c = (None, c') \<Longrightarrow>
     get_handshake_type c' = (if is_server then server else client) \<and>
     (\<exists>c'' fx. init callback c' =
        Inr (c'', fx @ [AsyncHandshake (if is_server then server else client) callback]))"
proof -
  assume ok: "init_asio service is_server c = (None, c')"
  from init_asio_success(1) [OF ok] obtain s t
    where bound: "m_socket c' = Some s" "m_timer c' = Some t" by blast
  from init_asio_success(2) [OF ok]
  have role: "get_handshake_type c' = (if is_server then server else client)"
    by (simp add: get_handshake_type_def)
  have "\<exists>c'' fx. init callback c' = Inr (c'', fx @ [AsyncHandshake (get_handshake_type c') callback])"
  proof (cases "m_socket_init_handler c'")
    case None
    with init_bound [OF bound, of callback]
    have "init callback c' =
        Inr (c', [TimerExpiresFromNow 5000, TimerAsyncWait callback] @
                 [AsyncHandshake (get_handshake_type c') callback])"
      by simp
    then show ?thesis by blast
  next
    case (Some h)
    with init_bound [OF bound, of callback]
    have "init callback c' =
        Inr (c'\<lparr>m_socket := Some (s\<lparr>lowest_layer := h (m_hdl c') (lowest_layer s)\<rparr>)\<rparr>,
             [SocketInitCall (m_hdl c') (lowest_layer s), TimerExpiresFromNow 5000,
              TimerAsyncWait callback] @
             [AsyncHandshake (get_handshake_type c') callback])"
      by simp
    then show ?thesis by blast
  qed
  with role show ?thesis by simp
qed

theorem handshake_role_from_init_asio_witness:
  "init_asio 1 True (set_tls_init_handler (Some (\<lambda>hdl. Some 7)) (connection_ctor 0 False)) =
     (None, (set_tls_init_handler (Some (\<lambda>hdl. Some 7)) (connection_ctor 0 False))
              \<lparr>m_io_service := 1, m_context := Some 7,
               m_socket := Some (new_socket_type 1 7),
               m_timer := Some \<lparr>timer_service = 1, timer_seconds = 0\<rparr>,
               m_is_server := True\<rparr>) \<and>
   get_handshake_type
     ((set_tls_init_handler (Some (\<lambda>hdl. Some 7)) (connection_ctor 0 False))
              \<lparr>m_io_service := 1, m_context := Some 7,
               m_socket := Some (new_socket_type 1 7),
               m_timer := Some \<lparr>timer_service = 1, timer_seconds = 0\<rparr>,
               m_is_server := True\<rparr>) = server \<and>
   (\<exists>c'' fx. init 3
     ((set_tls_init_handler (Some (\<lambda>hdl. Some 7)) (connection_ctor 0 False))
              \<lparr>m_io_service := 1, m_context := Some 7,
               m_socket := Some (new_socket_type 1 7),
               m_timer := Some \<lparr>timer_service = 1, timer_seconds = 0\<rparr>,
               m_is_server := True\<rparr>) = Inr (c'', fx @ [AsyncHandshake server 3]))"
proof -
  have ok: "init_asio 1 True (set_tls_init_handler (Some (\<lambda>hdl. Some 7)) (connection_ctor 0 False)) =
     (None, (set_tls_init_handler (Some (\<lambda>hdl. Some 7)) (connection_ctor 0 False))
              \<lparr>m_io_service := 1, m_context := Some 7,
               m_socket := Some (new_socket_type 1 7),
               m_timer := Some \<lparr>timer_service = 1, timer_seconds = 0\<rparr>,
               m_is_server := True\<rparr>)"
    by (simp add: init_asio_def set_tls_init_handler_def connection_ctor_def)
  from ok handshake_role_from_init_asio [OF ok, of 3] show ?thesis by simp
qed

section \<open>Shutdown\<close>

text \<open>
  C8. \<open>shutdown\<close> on a connection with a socket makes the one call on the stream and
  nothing else, whatever the outcome of the close: no callback is invoked, nothing is
  returned, and the result is the same for every outcome.
\<close>

theorem shutdown_discards_error:
  "m_socket c = Some s \<Longrightarrow>
     shutdown close_outcome c = Inr [StreamShutdown] \<and>
     shutdown close_outcome c = shutdown 0 c"
  by (simp add: shutdown_def)

theorem shutdown_discards_error_witness:
  "shutdown 104 bound_client = Inr [StreamShutdown] \<and>
   shutdown 104 bound_client = shutdown 0 bound_client"
  using shutdown_discards_error [of bound_client "new_socket_type 1 7" 104]
  by (simp add: bound_client_simps shutdown_def)

section \<open>The race between the handshake and the timer\<close>

text \<open>
  C10. When the timer's wait completes with an error code that is not
  \<open>operation_aborted\<close>, \<open>handle_timeout\<close> invokes the callback, once, with the
  pass-through error.
\<close>

theorem handle_timeout_pass_through:
  "error \<noteq> 0 \<Longrightarrow> error \<noteq> operation_aborted \<Longrightarrow>
     handle_timeout callback error = [Callback callback (make_error pass_through)]"
  by (simp add: handle_timeout_def)

theorem handle_timeout_pass_through_witness:
  "(9::int) \<noteq> 0 \<and> 9 \<noteq> operation_aborted \<and>
   handle_timeout 3 9 = [Callback 3 (Some pass_through)]"
  using handle_timeout_pass_through [of 9 3]
  by (simp add: operation_aborted_def make_error_def)


text \<open>
  Once no wait and no handshake is outstanding and the queue holds nothing but aborted
  waits, no event makes the callback run again.
\<close>

lemma run_settled:
  assumes "waits st = []" and "handshakes st = []"
    and "\<forall>x \<in> set (ready st). \<exists>cb. x = WaitDone cb operation_aborted"
  shows "\<exists>st'. run c evs st = Inr st' \<and> calls st' = calls st"
  using assms
proof (induction evs arbitrary: st)
  case Nil
  then show ?case by simp
next
  case (Cons ev evs)
  show ?case
  proof (cases ev)
    case (TimerCompletes e)
    let ?st1 = "complete_waits e st"
    have "waits ?st1 = []" "handshakes ?st1 = []" "ready ?st1 = ready st" "calls ?st1 = calls st"
      using Cons.prems by (simp_all add: complete_waits_def)
    with Cons.IH [of ?st1] Cons.prems TimerCompletes show ?thesis by simp
  next
    case (HandshakeCompletes e)
    with Cons.IH [of st] Cons.prems show ?thesis by simp
  next
    case Dispatch
    show ?thesis
    proof (cases "ready st")
      case Nil
      with Cons.IH [of st] Cons.prems Dispatch show ?thesis by simp
    next
      case (Cons x queue)
      with Cons.prems(3) obtain cb where x: "x = WaitDone cb operation_aborted" by auto
      let ?st1 = "st\<lparr>ready := queue\<rparr>"
      have "step c Dispatch st = Inr ?st1"
        using Cons x by (simp add: handle_timeout_def operation_aborted_def)
      moreover have "waits ?st1 = []" "handshakes ?st1 = []" "calls ?st1 = calls st"
        "\<forall>x \<in> set (ready ?st1). \<exists>cb. x = WaitDone cb operation_aborted"
        using Cons.prems Cons by simp_all
      ultimately show ?thesis using Cons.IH [of ?st1] Dispatch by simp
    qed
  qed
qed

lemma init_started:
  assumes "m_socket c = Some s" and "m_timer c = Some t"
  shows "\<exists>c1 fx. init callback c = Inr (c1, fx) \<and> m_timer c1 = Some t \<and>
           performs fx idle_service =
             \<lparr>waits = [callback], handshakes = [callback], ready = [], calls = []\<rparr>"
  using init_bound [OF assms, of callback]
  by (cases "m_socket_init_handler c")
     (simp_all add: assms idle_service_def complete_waits_def)

lemma handle_init_bound:
  "m_timer c = Some t \<Longrightarrow>
     handle_init callback error c =
       Inr [TimerCancel,
            Callback callback (if error \<noteq> 0 then make_error pass_through else None)]"
  by (simp add: handle_init_def)


text \<open>
  The guarded order. On a bound connection, when \<open>handle_init\<close> runs while the
  timer's wait is still outstanding, it cancels the timer and then reports the outcome
  (success, or the pass-through error); \<open>handle_timeout\<close> does nothing on the
  resulting \<open>operation_aborted\<close>; and whatever the reactor does afterwards, the
  callback has been invoked with that outcome only.
\<close>

lemma handle_init_before_expiry:
  "m_socket c = Some s \<Longrightarrow> m_timer c = Some t \<Longrightarrow>
     (\<exists>c1 fx. init callback c = Inr (c1, fx) \<and>
        handle_init callback error c1 =
          Inr [TimerCancel,
               Callback callback (if error \<noteq> 0 then make_error pass_through else None)]) \<and>
     handle_timeout callback operation_aborted = [] \<and>
     (\<exists>st. handshake_attempt callback (HandshakeCompletes error # Dispatch # evs) c = Inr st \<and>
        calls st = [(callback, if error \<noteq> 0 then make_error pass_through else None)] \<and>
        make_error tls_handshake_timeout \<notin> snd ` set (calls st))"
proof -
  assume bound: "m_socket c = Some s" "m_timer c = Some t"
  let ?result = "if error \<noteq> 0 then make_error pass_through else None"
  from init_started [OF bound, of callback] obtain c1 fx
    where started: "init callback c = Inr (c1, fx)"
      and timer: "m_timer c1 = Some t"
      and st0: "performs fx idle_service =
                  \<lparr>waits = [callback], handshakes = [callback], ready = [], calls = []\<rparr>"
    by blast
  let ?st0 = "\<lparr>waits = [callback], handshakes = [callback], ready = [], calls = []\<rparr>"
  let ?st1 = "\<lparr>waits = [callback], handshakes = [],
               ready = [HandshakeDone callback error], calls = []\<rparr>"
  let ?st2 = "\<lparr>waits = [], handshakes = [],
               ready = [WaitDone callback operation_aborted],
               calls = [(callback, ?result)]\<rparr>"
  have first: "handle_init callback error c1 = Inr [TimerCancel, Callback callback ?result]"
    using timer by (rule handle_init_bound)
  have aborted: "handle_timeout callback operation_aborted = []"
    by (simp add: handle_timeout_def operation_aborted_def)
  have s1: "step c1 (HandshakeCompletes error) ?st0 = Inr ?st1"
    by simp
  have s2: "step c1 Dispatch ?st1 = Inr ?st2"
    by (simp add: first complete_waits_def)
  from run_settled [of ?st2 c1 evs] obtain st
    where rest: "run c1 evs ?st2 = Inr st" and same: "calls st = calls ?st2"
    by auto
  have attempt: "handshake_attempt callback (HandshakeCompletes error # Dispatch # evs) c = Inr st"
    unfolding handshake_attempt_def using started st0 s1 s2 rest
    by (simp del: step.simps)
  have once: "calls st = [(callback, ?result)]"
    using same by simp
  have "make_error tls_handshake_timeout \<notin> snd ` set (calls st)"
    unfolding once by (simp add: make_error_def)
  with first aborted started attempt once show ?thesis by blast
qed

text \<open>
  C1. Exactly-once delivery of the outcome does not hold when the timer wins the race.
  On a bound connection, after \<open>init\<close> with callback 3, the deadline elapses and
  \<open>handle_timeout\<close> reports the handshake timeout; the handshake then resolves and
  \<open>handle_init\<close>, which has no record of the earlier report, invokes the callback a
  second time.
\<close>

theorem timer_first_second_invocation:
  "map_sum id calls
     (handshake_attempt 3 [TimerCompletes 0, Dispatch, HandshakeCompletes 0, Dispatch]
        bound_client) =
   Inr [(3, make_error tls_handshake_timeout), (3, None)]"
  by (simp add: handshake_attempt_def init_bound bound_client_simps idle_service_def
      complete_waits_def handle_timeout_def handle_init_def make_error_def
      operation_aborted_def)

text \<open>
  C4. A handshake that resolves before the deadline does not keep the handshake timeout
  from being reported. On a bound connection, after \<open>init\<close> with callback 3, the
  handshake resolves with success; before its handler is dispatched the deadline
  elapses and the timer's wait completes with code 0. \<open>handle_init\<close> then cancels
  the timer, which aborts nothing, and reports success; \<open>handle_timeout\<close> runs
  with code 0, not with \<open>operation_aborted\<close>, and reports the handshake timeout
  for the same attempt.
\<close>

theorem handshake_first_timeout_reported:
  "map_sum id calls
     (handshake_attempt 3 [HandshakeCompletes 0, TimerCompletes 0, Dispatch, Dispatch]
        bound_client) =
   Inr [(3, None), (3, make_error tls_handshake_timeout)]"
  by (simp add: handshake_attempt_def init_bound bound_client_simps idle_service_def
      complete_waits_def handle_timeout_def handle_init_def make_error_def
      operation_aborted_def)

end
